theory Spec2Isabelle
  imports Complex_Main
begin

section \<open>Numbers, points and errors\<close>

text \<open>
  The front-end components compute with JavaScript numbers. They are embedded as
  \<^typ>\<open>real\<close>: the theorems below are about the functions the code computes in exact
  arithmetic, not about the rounding of IEEE doubles. \<open>Math.pow(x, k)\<close> with a
  natural exponent is \<open>x ^ k\<close> (both give 1 for \<open>0 ^ 0\<close>), \<open>Math.PI\<close> is
  \<^term>\<open>pi\<close>. Array indices, lengths and loop counters are natural numbers.

  A property access on \<open>undefined\<close> raises a \<open>TypeError\<close> in JavaScript; functions
  that can reach such an access return \<open>js_error + 'a\<close>, with \<open>Inl\<close> for the raise.
\<close>

datatype js_error = TypeError

type_synonym point = "real \<times> real"

datatype point_type = curve | point

text \<open>The objects \<open>{ x, y, type }\<close> pushed by the plotting components.\<close>

record plot_point =
  px :: real
  py :: real
  ptype :: point_type

section \<open>Polynomial curves\<close>

subsection \<open>The power sum of the curve generators\<close>

text \<open>
  \<open>generateCurvePoints\<close> (FeatureVisualizer) and \<open>generatePlotData\<close> (FaceEquations)
  hold the same inner loop:
  \<^verbatim>\<open>
  let y = 0;
  for (let j = 0; j < coefficients.length; j++) {
    y += coefficients[j] * Math.pow(x, coefficients.length - 1 - j);
  }
  \<close>
  \<open>poly_loop\<close> is that loop from the state \<open>(j, y)\<close>; \<open>poly_eval\<close> starts it.
\<close>

function poly_loop :: "real list \<Rightarrow> real \<Rightarrow> nat \<Rightarrow> real \<Rightarrow> real" where
  "poly_loop coefficients x j y =
     (if j < length coefficients
      then poly_loop coefficients x (j + 1)
             (y + coefficients ! j * x ^ (length coefficients - 1 - j))
      else y)"
  by pat_completeness auto
termination
  by (relation "measure (\<lambda>(coefficients, x, j, y). length coefficients - j)") auto

declare poly_loop.simps [simp del]

definition poly_eval :: "real list \<Rightarrow> real \<Rightarrow> real" where
  "poly_eval coefficients x = poly_loop coefficients x 0 0"

text \<open>
  The outer loop of both generators:
  \<^verbatim>\<open>
  for (let i = 0; i <= numPoints; i++) {
    const x = i / numPoints;
    ... y as above ...
    curvePoints.push({ x, y, type: 'curve' });
  }
  \<close>
  with \<open>numPoints = 100\<close> (a literal in \<open>generateCurvePoints\<close>, a constant in
  \<open>generatePlotData\<close>).
\<close>

function curve_loop :: "real list \<Rightarrow> nat \<Rightarrow> nat \<Rightarrow> plot_point list \<Rightarrow> plot_point list" where
  "curve_loop coefficients numPoints i curvePoints =
     (if i \<le> numPoints
      then (let x = real i / real numPoints;
                y = poly_eval coefficients x
            in curve_loop coefficients numPoints (i + 1)
                 (curvePoints @ [\<lparr>px = x, py = y, ptype = curve\<rparr>]))
      else curvePoints)"
  by pat_completeness auto
termination
  by (relation "measure (\<lambda>(coefficients, numPoints, i, curvePoints). Suc numPoints - i)") auto

declare curve_loop.simps [simp del]

subsection \<open>The Horner sum of the evaluator\<close>

text \<open>
  Modelled from the spec: the polynomial case of \<open>evaluate(descriptor, t)\<close>, which is
  not among the sources. The spec gives it as the "polynomial Horner sum" over
  \<open>polynomial { coefficients: ordered sequence highest-to-lowest degree }\<close>: starting
  from 0, each coefficient in turn is added to the accumulator times \<open>x\<close>.
\<close>

definition horner :: "real list \<Rightarrow> real \<Rightarrow> real" where
  "horner coefficients x = foldl (\<lambda>acc c. acc * x + c) 0 coefficients"

subsection \<open>Both compute the same polynomial\<close>

lemma poly_loop_sum:
  "poly_loop cs x j y = y + (\<Sum>i = j..<length cs. cs ! i * x ^ (length cs - 1 - i))"
proof (induction cs x j y rule: poly_loop.induct)
  case (1 cs x j y)
  show ?case
  proof (cases "j < length cs")
    case True
    then have "(\<Sum>i = j..<length cs. cs ! i * x ^ (length cs - 1 - i)) =
        cs ! j * x ^ (length cs - 1 - j) +
        (\<Sum>i = j + 1..<length cs. cs ! i * x ^ (length cs - 1 - i))"
      by (simp add: sum.atLeast_Suc_lessThan)
    with True "1.IH" show ?thesis
      by (subst poly_loop.simps) simp
  next
    case False
    then show ?thesis
      by (subst poly_loop.simps) simp
  qed
qed

lemma poly_eval_sum:
  "poly_eval cs x = (\<Sum>i<length cs. cs ! i * x ^ (length cs - 1 - i))"
  by (simp add: poly_eval_def poly_loop_sum atLeast0LessThan)

lemma horner_snoc: "horner (cs @ [c]) x = horner cs x * x + c"
  by (simp add: horner_def)

lemma horner_sum:
  "horner cs x = (\<Sum>i<length cs. cs ! i * x ^ (length cs - 1 - i))"
proof (induction cs rule: rev_induct)
  case Nil
  show ?case by (simp add: horner_def)
next
  case (snoc c cs)
  have "(\<Sum>i<length cs. (cs @ [c]) ! i * x ^ (length cs - i)) =
        (\<Sum>i<length cs. cs ! i * x ^ (length cs - 1 - i) * x)"
  proof (rule sum.cong)
    fix i assume "i \<in> {..<length cs}"
    then have i: "i < length cs" by simp
    then have "length cs - i = Suc (length cs - 1 - i)" by arith
    with i show "(cs @ [c]) ! i * x ^ (length cs - i) = cs ! i * x ^ (length cs - 1 - i) * x"
      by (simp add: nth_append)
  qed simp
  then show ?case
    by (simp add: horner_snoc snoc.IH sum_distrib_right)
qed

text \<open>
  C1. For every coefficient list ordered from the highest to the lowest degree and
  every abscissa \<open>x\<close>, the Horner evaluation of the evaluator equals the power sum
  \<open>\<Sum>j. c\<^sub>j * x ^ (n - j)\<close> that the loop of the front-end curve generators computes.
\<close>

theorem horner_eq_poly_eval:
  "horner cs x = poly_eval cs x \<and>
   poly_eval cs x = (\<Sum>j<length cs. cs ! j * x ^ (length cs - 1 - j))"
  by (simp add: horner_sum poly_eval_sum)

lemma curve_loop_map:
  "curve_loop cs n i acc =
     acc @ map (\<lambda>k. \<lparr>px = real k / real n, py = poly_eval cs (real k / real n), ptype = curve\<rparr>)
             [i..<Suc n]"
proof (induction cs n i acc rule: curve_loop.induct)
  case (1 cs n i acc)
  show ?case
  proof (cases "i \<le> n")
    case True
    then have "[i..<Suc n] = i # [i + 1..<Suc n]"
      by (simp add: upt_conv_Cons)
    with True "1.IH" show ?thesis
      by (subst curve_loop.simps) (simp add: Let_def)
  next
    case False
    then show ?thesis
      by (subst curve_loop.simps) simp
  qed
qed

section \<open>The curve generators and their guards\<close>

text \<open>
  The response object handed to the plotting components is
  \<open>{ landmarks: { feature: [[x, y], ...] }, equations: { feature: { type, equation,
  coefficients | parameters } } }\<close>. A field that may be missing is an \<open>option\<close>
  (\<open>None\<close> is \<open>undefined\<close> or \<open>null\<close>), the two objects keyed by feature name are maps.
  An equation entry is an object, hence truthy whenever it is present.
\<close>

record equation =
  eq_type :: string
  coefficients :: "real list option"
  parameters :: "real list option"

record face_data =
  landmarks :: "(string \<rightharpoonup> point list) option"
  equations :: "(string \<rightharpoonup> equation) option"

text \<open>\<^verbatim>\<open>points.map(([x, y]) => ({ x, y, type: 'point' }))\<close>\<close>

definition landmark_points :: "point list \<Rightarrow> plot_point list" where
  "landmark_points points = map (\<lambda>(x, y). \<lparr>px = x, py = y, ptype = point\<rparr>) points"

text \<open>
  FeatureVisualizer:
  \<^verbatim>\<open>
  const generateCurvePoints = () => {
    if (!data?.equations?.[selectedFeature]) return [];
    const equation = data.equations[selectedFeature];
    const coefficients = equation.coefficients;
    const curvePoints = [];
    for (let i = 0; i <= 100; i++) { ... coefficients.length ... }
    const landmarkPoints = data.landmarks[selectedFeature].map(([x, y]) => ({
      x, y, type: 'point' }));
    return [...curvePoints, ...landmarkPoints];
  };
  \<close>
  The only guard is on the equation entry. \<open>coefficients.length\<close>,
  \<open>data.landmarks[selectedFeature]\<close> and \<open>.map\<close> are property accesses that raise when
  their object is \<open>undefined\<close>.
\<close>

definition generateCurvePoints :: "face_data option \<Rightarrow> string \<Rightarrow> js_error + plot_point list" where
  "generateCurvePoints data selectedFeature =
     (case data of
        None \<Rightarrow> Inr []
      | Some d \<Rightarrow>
          (case equations d of
             None \<Rightarrow> Inr []
           | Some eqs \<Rightarrow>
               (case eqs selectedFeature of
                  None \<Rightarrow> Inr []
                | Some equation \<Rightarrow>
                    (case coefficients equation of
                       None \<Rightarrow> Inl TypeError
                     | Some cs \<Rightarrow>
                         (let curvePoints = curve_loop cs 100 0 []
                          in case landmarks d of
                               None \<Rightarrow> Inl TypeError
                             | Some lms \<Rightarrow>
                                 (case lms selectedFeature of
                                    None \<Rightarrow> Inl TypeError
                                  | Some points \<Rightarrow>
                                      Inr (curvePoints @ landmark_points points)))))))"

text \<open>
  FaceEquations, over the component state \<open>landmarks\<close>, \<open>equations\<close>,
  \<open>selectedFeature\<close>:
  \<^verbatim>\<open>
  const generatePlotData = () => {
    if (!landmarks || !equations) return [];
    const feature = selectedFeature;
    const points = landmarks[feature];
    const equation = equations[feature];
    if (!points || !equation) return [];
    const curvePoints = [];
    const numPoints = 100;
    for (let i = 0; i <= numPoints; i++) { ... equation.coefficients ... }
    const landmarkPoints = points.map(([x, y]) => ({ x, y, type: 'point' }));
    return [...curvePoints, ...landmarkPoints];
  };
  \<close>
\<close>

definition generatePlotData ::
  "(string \<rightharpoonup> point list) option \<Rightarrow> (string \<rightharpoonup> equation) option \<Rightarrow> string
     \<Rightarrow> js_error + plot_point list" where
  "generatePlotData landmarks_state equations_state selectedFeature =
     (case (landmarks_state, equations_state) of
        (Some lms, Some eqs) \<Rightarrow>
          (case (lms selectedFeature, eqs selectedFeature) of
             (Some points, Some equation) \<Rightarrow>
               (case coefficients equation of
                  None \<Rightarrow> Inl TypeError
                | Some coeffs \<Rightarrow>
                    Inr (curve_loop coeffs 100 0 [] @ landmark_points points))
           | _ \<Rightarrow> Inr [])
      | _ \<Rightarrow> Inr [])"

text \<open>
  With no data, no \<open>equations\<close> object or no entry for the selected feature,
  \<open>generateCurvePoints\<close> returns the empty list.
\<close>

lemma generateCurvePoints_no_entry:
  "data = None \<or>
   (\<exists>d. data = Some d \<and>
      (equations d = None \<or> (\<exists>eqs. equations d = Some eqs \<and> eqs f = None)))
   \<Longrightarrow> generateCurvePoints data f = Inr []"
  by (auto simp: generateCurvePoints_def)

text \<open>
  \<open>generatePlotData\<close> returns the empty list whenever either object or either entry
  is missing: it guards the landmarks as well as the equations.
\<close>

lemma generatePlotData_absent:
  "lms = None \<or> eqs = None \<or> (\<exists>l. lms = Some l \<and> l f = None) \<or> (\<exists>e. eqs = Some e \<and> e f = None)
   \<Longrightarrow> generatePlotData lms eqs f = Inr []"
  by (auto simp: generatePlotData_def split: option.splits)

text \<open>
  \<open>generateCurvePoints\<close> has no guard on \<open>data.landmarks\<close>: whenever the equation entry
  is there and the landmarks object is not, it raises instead of returning \<open>[]\<close>.
\<close>

lemma generateCurvePoints_no_landmarks:
  "equations d = Some eqs \<Longrightarrow> eqs f = Some e \<Longrightarrow> landmarks d = None \<Longrightarrow>
   generateCurvePoints (Some d) f = Inl TypeError"
  by (simp add: generateCurvePoints_def Let_def split: option.splits)

text \<open>
  C10. The claim: whenever the equations map has no entry for the selected feature, or
  the landmarks or equations object is absent, the curve-point generators return the
  empty list and never throw. \<open>generatePlotData\<close> does (\<open>generatePlotData_absent\<close>);
  \<open>generateCurvePoints\<close> does not: on the data object
  \<open>{ equations: { jawline: { type: 'polynomial', coefficients: [1, 0] } } }\<close>, which has
  no \<open>landmarks\<close>, it raises a \<open>TypeError\<close>.
\<close>

theorem generateCurvePoints_absent_landmarks_raises:
  "generateCurvePoints
     (Some \<lparr>landmarks = None,
            equations = Some [''jawline'' \<mapsto>
              \<lparr>eq_type = ''polynomial'', coefficients = Some [1, 0], parameters = None\<rparr>]\<rparr>)
     ''jawline'' = Inl TypeError"
  by (simp add: generateCurvePoints_def)

section \<open>EquationGraph: polynomial and trigonometric curves\<close>

text \<open>
  \<^verbatim>\<open>
  equations.coefficients.forEach((coeff, index) => {
    const power = equations.coefficients.length - 1 - index;
    y += coeff * Math.pow(x, power);
  });
  \<close>
  \<open>forEach\<close> visits the elements in order with their index; \<open>len\<close> is
  \<open>equations.coefficients.length\<close>.
\<close>

fun poly_forEach :: "real list \<Rightarrow> nat \<Rightarrow> real \<Rightarrow> nat \<Rightarrow> real \<Rightarrow> real" where
  "poly_forEach [] len x index y = y"
| "poly_forEach (coeff # rest) len x index y =
     (let power = len - 1 - index
      in poly_forEach rest len x (index + 1) (y + coeff * x ^ power))"

text \<open>
  \<^verbatim>\<open>
  const params = equations.parameters;
  y = params[0]; // offset
  for (let j = 1; j < params.length; j += 2) {
    if (j + 1 < params.length) {
      y += params[j] * Math.sin(j * Math.PI * x) +
           params[j+1] * Math.cos(j * Math.PI * x);
    }
  }
  \<close>
  \<open>trig_loop\<close> is the loop from the state \<open>(j, y)\<close>. The factor in front of
  \<open>Math.PI * x\<close> is the array index \<open>j\<close>, which advances by 2.
\<close>

function trig_loop :: "real list \<Rightarrow> real \<Rightarrow> nat \<Rightarrow> real \<Rightarrow> real" where
  "trig_loop params x j y =
     (if j < length params
      then trig_loop params x (j + 2)
             (if j + 1 < length params
              then y + (params ! j * sin (real j * pi * x) +
                        params ! (j + 1) * cos (real j * pi * x))
              else y)
      else y)"
  by pat_completeness auto
termination
  by (relation "measure (\<lambda>(params, x, j, y). length params - j)") auto

declare trig_loop.simps [simp del]

text \<open>
  \<open>params[0]\<close> of an empty array is \<open>undefined\<close>, and the loop does not run then:
  \<open>y\<close> stays \<open>undefined\<close>, which is \<open>None\<close> here.
\<close>

definition trig_eval :: "real list \<Rightarrow> real \<Rightarrow> real option" where
  "trig_eval params x =
     (case params of [] \<Rightarrow> None | offset # _ \<Rightarrow> Some (trig_loop params x 1 offset))"

record graph_point =
  gx :: real
  gy :: "real option"

text \<open>
  The value of \<open>y\<close> for one \<open>x\<close>:
  \<^verbatim>\<open>
  let y = 0;
  if (equations.type === 'polynomial') { ... }
  else if (equations.type === 'trigonometric') { ... }
  \<close>
  Any other type leaves \<open>y = 0\<close>. Reading \<open>params[0]\<close> from a missing
  \<open>equations.parameters\<close> raises. The prop \<open>equations\<close> is \<open>eqn\<close> below.
\<close>

definition graph_y :: "equation \<Rightarrow> real list \<Rightarrow> real \<Rightarrow> js_error + real option" where
  "graph_y eqn cs x =
     (if eq_type eqn = ''polynomial''
      then Inr (Some (poly_forEach cs (length cs) x 0 0))
      else if eq_type eqn = ''trigonometric''
      then (case parameters eqn of
              None \<Rightarrow> Inl TypeError
            | Some params \<Rightarrow> Inr (trig_eval params x))
      else Inr (Some 0))"

text \<open>
  \<^verbatim>\<open>
  const generateGraphPoints = () => {
    if (!equations || !equations.coefficients) return [];
    const data = [];
    const numPoints = 100;
    for (let i = 0; i <= numPoints; i++) {
      const x = i / numPoints;
      ... y ...
      data.push({ x, y });
    }
    return data;
  };
  \<close>
\<close>

function graph_loop ::
  "equation \<Rightarrow> real list \<Rightarrow> nat \<Rightarrow> nat \<Rightarrow> graph_point list \<Rightarrow> js_error + graph_point list" where
  "graph_loop eqn cs numPoints i data =
     (if i \<le> numPoints
      then (let x = real i / real numPoints
            in case graph_y eqn cs x of
                 Inl e \<Rightarrow> Inl e
               | Inr y \<Rightarrow> graph_loop eqn cs numPoints (i + 1) (data @ [\<lparr>gx = x, gy = y\<rparr>]))
      else Inr data)"
  by pat_completeness auto
termination
  by (relation "measure (\<lambda>(eqn, cs, numPoints, i, data). Suc numPoints - i)") auto

declare graph_loop.simps [simp del]

definition generateGraphPoints :: "equation option \<Rightarrow> js_error + graph_point list" where
  "generateGraphPoints equations_prop =
     (case equations_prop of
        None \<Rightarrow> Inr []
      | Some eqn \<Rightarrow>
          (case coefficients eqn of
             None \<Rightarrow> Inr []
           | Some cs \<Rightarrow> graph_loop eqn cs 100 0 []))"

subsection \<open>The stored sequence of a trigonometric descriptor\<close>

text \<open>
  A trigonometric descriptor is an offset and a sequence of (sin, cos) coefficient
  pairs; its stored parameter array is \<open>[a\<^sub>0, s\<^sub>1, c\<^sub>1, \<dots>, s\<^sub>k, c\<^sub>k]\<close>.
\<close>

definition trig_params :: "real \<Rightarrow> (real \<times> real) list \<Rightarrow> real list" where
  "trig_params offset pairs = offset # concat (map (\<lambda>(s, c). [s, c]) pairs)"

text \<open>
  The sum of harmonics in which the pair at position \<open>h\<close> (counted from 0) has the
  multiple \<open>m h\<close> of \<open>\<pi> * x\<close>. The spec's basis row
  \<open>[1, sin(1\<pi>x), cos(1\<pi>x), \<dots>, sin(k\<pi>x), cos(k\<pi>x)]\<close> is \<open>m = Suc\<close>, the multiples
  \<open>1, 2, \<dots>, k\<close>.
\<close>

definition harmonic_sum :: "(nat \<Rightarrow> nat) \<Rightarrow> real \<Rightarrow> (real \<times> real) list \<Rightarrow> real \<Rightarrow> real" where
  "harmonic_sum m offset pairs x =
     offset + (\<Sum>h<length pairs.
        fst (pairs ! h) * sin (real (m h) * pi * x) + snd (pairs ! h) * cos (real (m h) * pi * x))"

lemma poly_forEach_sum:
  "poly_forEach cs len x index y = y + (\<Sum>i<length cs. cs ! i * x ^ (len - 1 - (index + i)))"
proof (induction cs arbitrary: index y)
  case Nil
  show ?case by simp
next
  case (Cons c cs)
  show ?case
    by (simp del: sum.lessThan_Suc add: Cons.IH Let_def sum.lessThan_Suc_shift add.assoc)
qed

lemma poly_forEach_eq_poly_eval: "poly_forEach cs (length cs) x 0 0 = poly_eval cs x"
  by (simp add: poly_forEach_sum poly_eval_sum)

text \<open>
  A type that is neither \<open>polynomial\<close> nor \<open>trigonometric\<close> is drawn as the constant
  curve \<open>y = 0\<close>, without any message.
\<close>

lemma graph_y_other_type:
  "eq_type eqn \<noteq> ''polynomial'' \<Longrightarrow> eq_type eqn \<noteq> ''trigonometric'' \<Longrightarrow>
   graph_y eqn cs x = Inr (Some 0)"
  by (simp add: graph_y_def)

lemma trig_loop_pairs:
  "trig_loop (pre @ concat (map (\<lambda>(s, c). [s, c]) pairs)) x (length pre) y =
     y + (\<Sum>h<length pairs.
        fst (pairs ! h) * sin (real (length pre + 2 * h) * pi * x) +
        snd (pairs ! h) * cos (real (length pre + 2 * h) * pi * x))"
proof (induction pairs arbitrary: pre y)
  case Nil
  show ?case
    by (subst trig_loop.simps) simp
next
  case (Cons p pairs)
  obtain s c where p: "p = (s, c)" by (cases p)
  let ?rest = "concat (map (\<lambda>(s, c). [s, c]) pairs)"
  let ?params = "pre @ s # c # ?rest"
  let ?j = "length pre"
  let ?y = "y + (s * sin (real ?j * pi * x) + c * cos (real ?j * pi * x))"
  have nth_j: "?params ! ?j = s" and nth_j1: "?params ! (?j + 1) = c"
    by (simp_all add: nth_append)
  have step: "trig_loop ?params x ?j y = trig_loop ?params x (?j + 2) ?y"
    using nth_j nth_j1 by (subst trig_loop.simps) simp
  have "trig_loop ((pre @ [s, c]) @ ?rest) x (length (pre @ [s, c])) ?y =
      ?y + (\<Sum>h<length pairs.
        fst (pairs ! h) * sin (real (length (pre @ [s, c]) + 2 * h) * pi * x) +
        snd (pairs ! h) * cos (real (length (pre @ [s, c]) + 2 * h) * pi * x))"
    by (rule Cons.IH)
  then have rest: "trig_loop ?params x (?j + 2) ?y =
      ?y + (\<Sum>h<length pairs.
        fst (pairs ! h) * sin (real (?j + 2 + 2 * h) * pi * x) +
        snd (pairs ! h) * cos (real (?j + 2 + 2 * h) * pi * x))"
    by simp
  have "(\<Sum>h<length (p # pairs).
        fst ((p # pairs) ! h) * sin (real (?j + 2 * h) * pi * x) +
        snd ((p # pairs) ! h) * cos (real (?j + 2 * h) * pi * x)) =
      (s * sin (real ?j * pi * x) + c * cos (real ?j * pi * x)) +
      (\<Sum>h<length pairs.
        fst (pairs ! h) * sin (real (?j + 2 + 2 * h) * pi * x) +
        snd (pairs ! h) * cos (real (?j + 2 + 2 * h) * pi * x))"
    by (simp del: sum.lessThan_Suc add: p sum.lessThan_Suc_shift add_ac)
  with step rest show ?case
    by (simp add: p)
qed


lemma trig_eval_pairs:
  "trig_eval (trig_params offset pairs) x = Some (harmonic_sum (\<lambda>h. 2 * h + 1) offset pairs x)"
proof -
  have "trig_loop ([offset] @ concat (map (\<lambda>(s, c). [s, c]) pairs)) x (length [offset]) offset =
      offset + (\<Sum>h<length pairs.
        fst (pairs ! h) * sin (real (length [offset] + 2 * h) * pi * x) +
        snd (pairs ! h) * cos (real (length [offset] + 2 * h) * pi * x))"
    by (rule trig_loop_pairs)
  then show ?thesis
    by (simp add: trig_eval_def trig_params_def harmonic_sum_def add_ac)
qed

lemma harmonic_sum_two:
  "harmonic_sum m a [(s1, c1), (s2, c2)] x =
     a + ((s1 * sin (real (m 0) * pi * x) + c1 * cos (real (m 0) * pi * x)) +
          (s2 * sin (real (m 1) * pi * x) + c2 * cos (real (m 1) * pi * x)))"
  by (simp add: harmonic_sum_def lessThan_Suc numeral_2_eq_2)

text \<open>
  C2, as stated: the \<open>h\<close>-th (sin, cos) pair of the stored sequence is multiplied by sin
  and cos of \<open>h * \<pi> * x\<close>, \<open>h = 1, \<dots>, k\<close> (\<open>harmonic_sum Suc\<close>). The loop of \<open>generateGraphPoints\<close> does not
  compute that: for offset 0 and the pairs \<open>(0, 0), (1, 0)\<close> at \<open>x = 1/2\<close> the claimed
  value is \<open>sin \<pi> = 0\<close>, and the loop yields \<open>sin (3\<pi>/2) = -1\<close>.
\<close>

theorem trig_eval_not_consecutive_harmonics:
  "trig_eval (trig_params 0 [(0, 0), (1, 0)]) (1 / 2) = Some (- 1) \<and>
   harmonic_sum Suc 0 [(0, 0), (1, 0)] (1 / 2) = 0"
proof -
  have "sin (3 * pi * (1 / 2)) = - 1"
    using sin_3over2_pi by (simp add: mult.commute)
  then show ?thesis
    by (simp add: trig_eval_pairs harmonic_sum_two)
qed

text \<open>
  C2, amended: for offset \<open>a\<^sub>0\<close> and pairs \<open>(s\<^sub>h, c\<^sub>h)\<close>, \<open>h = 1, \<dots>, k\<close>, stored as
  \<open>[a\<^sub>0, s\<^sub>1, c\<^sub>1, \<dots>, s\<^sub>k, c\<^sub>k]\<close>, evaluation at \<open>x\<close> returns
  \<open>a\<^sub>0 + \<Sum>h. s\<^sub>h * sin ((2h - 1) * \<pi> * x) + c\<^sub>h * cos ((2h - 1) * \<pi> * x)\<close>: the \<open>h\<close>-th pair is
  multiplied by sin and cos of the odd multiple \<open>2h - 1\<close> of \<open>\<pi> * x\<close>, which is the
  array index of its sin coefficient. (Below \<open>h\<close> counts from 0, so the multiple is
  \<open>2 * h + 1\<close>.)
\<close>

theorem trig_eval_odd_harmonics:
  "trig_eval (trig_params offset pairs) x =
     Some (offset + (\<Sum>h<length pairs.
        fst (pairs ! h) * sin (real (2 * h + 1) * pi * x) +
        snd (pairs ! h) * cos (real (2 * h + 1) * pi * x)))"
  using trig_eval_pairs [of offset pairs x] by (simp only: harmonic_sum_def)

section \<open>Binomial coefficients\<close>

subsection \<open>The recursion of the front-end Bezier evaluator\<close>

text \<open>
  EnhancedFaceVisualizer, inside \<open>evaluateBezierCurve\<close>:
  \<^verbatim>\<open>
  const binomial = (n, k)=> {
    if (k === 0 || k === n) return 1;
    if (k > n) return 0;
    return binomial(n - 1, k - 1) + binomial(n - 1, k);
  };
  \<close>
  Its only call is \<open>binomial(n, i)\<close> with \<open>0 \<le> i \<le> n\<close>, from where the recursion stays
  within \<open>0 \<le> k \<le> n\<close>; the arguments are natural numbers here. (The name
  \<open>binomial\<close> is taken by the library's \<open>n choose k\<close>.)
\<close>

fun binomial_js :: "nat \<Rightarrow> nat \<Rightarrow> nat" where
  "binomial_js n k =
     (if k = 0 \<or> k = n then 1
      else if k > n then 0
      else binomial_js (n - 1) (k - 1) + binomial_js (n - 1) k)"

declare binomial_js.simps [simp del]

subsection \<open>The lookup table of the basis library\<close>

text \<open>
  Modelled from the spec: the binomial coefficients of the Bernstein basis constructor,
  which is not among the sources. The spec has them "precomputed via Pascal's-triangle
  table up to max supported degree (\<le> 15) -- never recursive": the table is built once,
  each row from the row before it (an entry is the sum of the two entries above it), and
  a coefficient is then read by two index operations.
\<close>

definition max_degree :: nat where
  "max_degree = 15"

definition next_row :: "nat list \<Rightarrow> nat list" where
  "next_row row = map2 (+) (0 # row) (row @ [0])"

fun pascal_rows :: "nat \<Rightarrow> nat list \<Rightarrow> nat list list" where
  "pascal_rows 0 row = [row]"
| "pascal_rows (Suc m) row = row # pascal_rows m (next_row row)"

definition pascal_table :: "nat list list" where
  "pascal_table = pascal_rows max_degree [1]"

definition binomial_lookup :: "nat \<Rightarrow> nat \<Rightarrow> nat option" where
  "binomial_lookup n k =
     (if n \<le> max_degree \<and> k \<le> n then Some (pascal_table ! n ! k) else None)"

subsection \<open>Both are the binomial coefficient\<close>

lemma binomial_js_choose: "binomial_js n k = n choose k"
proof (induction n k rule: binomial_js.induct)
  case (1 n k)
  show ?case
  proof (cases "k = 0 \<or> k = n")
    case True
    then show ?thesis
      by (subst binomial_js.simps) auto
  next
    case False
    show ?thesis
    proof (cases "k > n")
      case True
      with False show ?thesis
        by (subst binomial_js.simps) (simp add: binomial_eq_0)
    next
      case le: False
      with False obtain n' k' where n: "n = Suc n'" and k: "k = Suc k'"
        by (cases n; cases k) auto
      from False le "1.IH" have "binomial_js (n - 1) (k - 1) = (n - 1) choose (k - 1)"
        and "binomial_js (n - 1) k = (n - 1) choose k"
        by auto
      with False le show ?thesis
        by (subst binomial_js.simps) (simp add: n k)
    qed
  qed
qed

lemma next_row_choose:
  "next_row (map (\<lambda>k. n choose k) [0..<Suc n]) = map (\<lambda>k. Suc n choose k) [0..<Suc (Suc n)]"
proof (rule nth_equalityI)
  show "length (next_row (map (\<lambda>k. n choose k) [0..<Suc n])) =
        length (map (\<lambda>k. Suc n choose k) [0..<Suc (Suc n)])"
    by (simp add: next_row_def)
next
  fix i
  assume "i < length (next_row (map (\<lambda>k. n choose k) [0..<Suc n]))"
  then have i: "i < Suc (Suc n)"
    by (simp add: next_row_def)
  let ?row = "map (\<lambda>k. n choose k) [0..<Suc n]"
  have len: "length ?row = Suc n" by simp
  have row_nth: "?row ! j = n choose j" if "j < Suc n" for j
    using that by (simp del: upt_Suc)
  have "next_row ?row ! i = (0 # ?row) ! i + (?row @ [0]) ! i"
    using i unfolding next_row_def by (simp del: upt_Suc)
  also have "\<dots> = Suc n choose i"
  proof (cases i)
    case 0
    then show ?thesis
      using row_nth [of 0] by (simp del: upt_Suc add: nth_append)
  next
    case (Suc j)
    with i have j: "j < Suc n" by simp
    show ?thesis
    proof (cases "Suc j < Suc n")
      case True
      then show ?thesis
        using row_nth [of j] row_nth [of "Suc j"] j
        by (simp del: upt_Suc add: Suc nth_append)
    next
      case False
      with j have "j = n" by simp
      then show ?thesis
        using row_nth [of n]
        by (simp del: upt_Suc add: Suc nth_append)
    qed
  qed
  finally show "next_row ?row ! i = map (\<lambda>k. Suc n choose k) [0..<Suc (Suc n)] ! i"
    using i by (simp del: upt_Suc)
qed

lemma pascal_rows_nth:
  "n \<le> m \<Longrightarrow> pascal_rows m (map (\<lambda>k. d choose k) [0..<Suc d]) ! n =
     map (\<lambda>k. (d + n) choose k) [0..<Suc (d + n)]"
proof (induction m arbitrary: n d)
  case 0
  then show ?case by simp
next
  case (Suc m)
  show ?case
  proof (cases n)
    case 0
    then show ?thesis by simp
  next
    case (Suc n')
    with Suc.prems have "n' \<le> m" by simp
    then have "pascal_rows m (map (\<lambda>k. Suc d choose k) [0..<Suc (Suc d)]) ! n' =
        map (\<lambda>k. (Suc d + n') choose k) [0..<Suc (Suc d + n')]"
      by (rule Suc.IH)
    then show ?thesis
      by (simp del: upt_Suc add: Suc next_row_choose)
  qed
qed

lemma pascal_table_nth:
  assumes "n \<le> max_degree" and "k \<le> n"
  shows "pascal_table ! n ! k = n choose k"
proof -
  have "pascal_rows max_degree (map (\<lambda>k. 0 choose k) [0..<Suc 0]) ! n =
      map (\<lambda>k. (0 + n) choose k) [0..<Suc (0 + n)]"
    using assms(1) by (rule pascal_rows_nth)
  then have "pascal_table ! n = map (\<lambda>k. n choose k) [0..<Suc n]"
    by (simp add: pascal_table_def)
  with assms(2) show ?thesis
    by (simp del: upt_Suc)
qed

text \<open>
  C3. For every degree \<open>n \<le> 15\<close> and every \<open>k \<le> n\<close>, the entry of the precomputed
  Pascal's-triangle table is the value that the recursive rule
  \<open>C(n, k) = C(n - 1, k - 1) + C(n - 1, k)\<close>, \<open>C(n, 0) = C(n, n) = 1\<close> of the front-end
  evaluator computes; both are the binomial coefficient.
\<close>

theorem binomial_lookup_eq_binomial_js:
  "n \<le> 15 \<Longrightarrow> k \<le> n \<Longrightarrow>
   binomial_lookup n k = Some (binomial_js n k) \<and> binomial_js n k = n choose k"
  by (simp add: binomial_lookup_def max_degree_def pascal_table_nth binomial_js_choose)

theorem binomial_lookup_eq_binomial_js_witness:
  "(4::nat) \<le> 15 \<and> (2::nat) \<le> 4 \<and>
   binomial_lookup 4 2 = Some (binomial_js 4 2) \<and> binomial_js 4 2 = 4 choose 2"
  using binomial_lookup_eq_binomial_js [of 4 2] by simp

section \<open>Bezier curves\<close>

subsection \<open>The front-end evaluator\<close>

text \<open>
  EnhancedFaceVisualizer, the body of the loop over \<open>t\<close> in \<open>evaluateBezierCurve\<close>:
  \<^verbatim>\<open>
  let x = 0;
  let y = 0;
  const n = controlPoints.length - 1;
  for (let i = 0; i <= n; i++) {
    const binomial = ...;
    const b = binomial(n, i) * Math.pow(t, i) * Math.pow(1 - t, n - i);
    x += controlPoints[i][0] * b;
    y += controlPoints[i][1] * b;
  }
  points.push({ x, y });
  \<close>
  \<open>n\<close> is an integer, \<open>-1\<close> for an empty array, where the loop does not run. Inside
  the loop \<open>0 \<le> i \<le> n\<close>, so that \<open>n\<close>, \<open>i\<close> and \<open>n - i\<close> are natural numbers and
  \<open>controlPoints[i]\<close> is in range. A control point \<open>[x, y]\<close> is a pair.
\<close>

function bezier_loop :: "point list \<Rightarrow> int \<Rightarrow> real \<Rightarrow> nat \<Rightarrow> real \<Rightarrow> real \<Rightarrow> point" where
  "bezier_loop controlPoints n t i x y =
     (if int i \<le> n
      then (let b = real (binomial_js (nat n) i) * t ^ i * (1 - t) ^ nat (n - int i)
            in bezier_loop controlPoints n t (i + 1)
                 (x + fst (controlPoints ! i) * b)
                 (y + snd (controlPoints ! i) * b))
      else (x, y))"
  by pat_completeness auto
termination
  by (relation "measure (\<lambda>(controlPoints, n, t, i, x, y). nat (n + 1 - int i))") auto

declare bezier_loop.simps [simp del]

definition bezier_point :: "point list \<Rightarrow> real \<Rightarrow> point" where
  "bezier_point controlPoints t =
     bezier_loop controlPoints (int (length controlPoints) - 1) t 0 0 0"

text \<open>
  The loop over \<open>t\<close>:
  \<^verbatim>\<open>
  const evaluateBezierCurve = useCallback((controlPoints, numPoints = 50) => {
    const points = [];
    for (let t = 0; t <= 1; t += 1/numPoints) { ... points.push({ x, y }); }
    return points;
  }, []);
  \<close>
  Every call in the sources leaves \<open>numPoints\<close> at its default, so the step is \<open>1/50\<close>.
  The loop below adds the step in exact arithmetic: \<open>t\<close> runs through
  \<open>0, 1/50, \<dots>, 1\<close>, 51 points, the last one at \<open>t = 1\<close>. In IEEE doubles the repeated
  addition of \<open>1/50\<close> arrives at \<open>1.0000000000000004\<close> instead of \<open>1\<close>, so that the
  code returns 50 points and never evaluates \<open>t = 1\<close>. The number of samples and the
  last sample of \<open>bezier_t_loop\<close> and \<open>evaluateBezierCurve\<close> are therefore those of
  the exact reading, not of the running code; the single curve point \<open>bezier_point\<close>
  does not depend on them.
\<close>

function bezier_t_loop :: "point list \<Rightarrow> real \<Rightarrow> point list \<Rightarrow> point list" where
  "bezier_t_loop controlPoints t points =
     (if t \<le> 1
      then bezier_t_loop controlPoints (t + 1 / 50) (points @ [bezier_point controlPoints t])
      else points)"
  by pat_completeness auto
termination
proof (relation "measure (\<lambda>(controlPoints, t, points). nat (\<lfloor>(1 - t) * 50\<rfloor> + 1))")
  show "wf (measure (\<lambda>(controlPoints, t, points). nat (\<lfloor>(1 - t) * 50\<rfloor> + 1)))"
    by simp
next
  fix controlPoints :: "point list" and t :: real and points :: "point list"
  assume "t \<le> 1"
  then have "0 \<le> \<lfloor>(1 - t) * 50\<rfloor>"
    by simp
  moreover have "\<lfloor>(1 - (t + 1 / 50)) * 50\<rfloor> = \<lfloor>(1 - t) * 50\<rfloor> - 1"
  proof -
    have "(1 - (t + 1 / 50)) * 50 = (1 - t) * 50 - 1"
      by (simp add: algebra_simps)
    then show ?thesis
      by (simp only: floor_diff_one)
  qed
  ultimately show "((controlPoints, t + 1 / 50, points @ [bezier_point controlPoints t]),
      (controlPoints, t, points))
    \<in> measure (\<lambda>(controlPoints, t, points). nat (\<lfloor>(1 - t) * 50\<rfloor> + 1))"
    by simp
qed

declare bezier_t_loop.simps [simp del]

definition evaluateBezierCurve :: "point list \<Rightarrow> point list" where
  "evaluateBezierCurve controlPoints = bezier_t_loop controlPoints 0 []"

subsection \<open>The Bernstein form\<close>

text \<open>
  The Bernstein basis polynomial \<open>C(n, i) * t ^ i * (1 - t) ^ (n - i)\<close>; \<open>C(n, i)\<close> is the
  binomial coefficient \<^term>\<open>n choose i\<close>.
\<close>

definition bernstein :: "nat \<Rightarrow> nat \<Rightarrow> real \<Rightarrow> real" where
  "bernstein n i t = real (n choose i) * t ^ i * (1 - t) ^ (n - i)"

lemma bezier_loop_sum:
  "bezier_loop cps n t i x y =
     (x + (\<Sum>k = i..<nat (n + 1). fst (cps ! k) * bernstein (nat n) k t),
      y + (\<Sum>k = i..<nat (n + 1). snd (cps ! k) * bernstein (nat n) k t))"
proof (induction cps n t i x y rule: bezier_loop.induct)
  case (1 cps n t i x y)
  show ?case
  proof (cases "int i \<le> n")
    case True
    then have lt: "i < nat (n + 1)" by simp
    have b: "real (binomial_js (nat n) i) * t ^ i * (1 - t) ^ nat (n - int i) =
        bernstein (nat n) i t"
      using True by (simp add: bernstein_def binomial_js_choose nat_diff_distrib')
    have split: "(\<Sum>k = i..<nat (n + 1). f k) = f i + (\<Sum>k = i + 1..<nat (n + 1). f k)"
      for f :: "nat \<Rightarrow> real"
      using lt by (simp add: sum.atLeast_Suc_lessThan)
    from True "1.IH" [OF True refl] show ?thesis
      by (subst bezier_loop.simps) (simp add: Let_def b split add.assoc)
  next
    case False
    then show ?thesis
      by (subst bezier_loop.simps) simp
  qed
qed

lemma bezier_point_sum:
  "bezier_point cps t =
     ((\<Sum>i<length cps. fst (cps ! i) * bernstein (length cps - 1) i t),
      (\<Sum>i<length cps. snd (cps ! i) * bernstein (length cps - 1) i t))"
proof -
  have "nat (int (length cps) - 1 + 1) = length cps"
    and "nat (int (length cps) - 1) = length cps - 1"
    by simp_all
  then show ?thesis
    by (simp add: bezier_point_def bezier_loop_sum atLeast0LessThan)
qed


lemma bernstein_at_0: "bernstein n i 0 = (if i = 0 then 1 else 0)"
  by (simp add: bernstein_def)

lemma bernstein_at_1: "i \<le> n \<Longrightarrow> bernstein n i 1 = (if i = n then 1 else 0)"
  by (simp add: bernstein_def)


subsection \<open>The rational Bezier case of the evaluator\<close>









subsection \<open>Which control points the curve passes through\<close>

lemma bezier_point_at_0:
  assumes "cps \<noteq> []"
  shows "bezier_point cps 0 = cps ! 0"
proof -
  have "(\<Sum>i<length cps. f (cps ! i) * bernstein (length cps - 1) i 0) = f (cps ! 0)"
    for f :: "point \<Rightarrow> real"
  proof -
    have "(\<Sum>i<length cps. f (cps ! i) * bernstein (length cps - 1) i 0) =
        (\<Sum>i<length cps. if i = 0 then f (cps ! 0) else 0)"
      by (rule sum.cong) (simp_all add: bernstein_at_0)
    also have "\<dots> = f (cps ! 0)"
      using assms by (simp add: sum.delta)
    finally show ?thesis .
  qed
  then show ?thesis
    by (simp add: bezier_point_sum prod_eq_iff)
qed

lemma bezier_point_at_1:
  assumes "cps \<noteq> []"
  shows "bezier_point cps 1 = cps ! (length cps - 1)"
proof -
  let ?n = "length cps - 1"
  from assms have n: "?n < length cps"
    by (cases cps) simp_all
  have "(\<Sum>i<length cps. f (cps ! i) * bernstein ?n i 1) = f (cps ! ?n)"
    for f :: "point \<Rightarrow> real"
  proof -
    have "(\<Sum>i<length cps. f (cps ! i) * bernstein ?n i 1) =
        (\<Sum>i<length cps. if i = ?n then f (cps ! ?n) else 0)"
    proof (rule sum.cong)
      fix i assume "i \<in> {..<length cps}"
      then have "i \<le> ?n" by auto
      then show "f (cps ! i) * bernstein ?n i 1 = (if i = ?n then f (cps ! ?n) else 0)"
        by (simp add: bernstein_at_1)
    qed simp
    also have "\<dots> = f (cps ! ?n)"
      using n by (simp add: sum.delta)
    finally show ?thesis .
  qed
  then show ?thesis
    by (simp add: bezier_point_sum prod_eq_iff)
qed

lemma bezier_point_three:
  "bezier_point [(x0, y0), (x1, y1), (x2, y2)] t =
     (x0 * (1 - t)\<^sup>2 + x1 * (2 * t * (1 - t)) + x2 * t\<^sup>2,
      y0 * (1 - t)\<^sup>2 + y1 * (2 * t * (1 - t)) + y2 * t\<^sup>2)"
  by (simp add: bezier_point_sum bernstein_def lessThan_Suc numeral_2_eq_2 numeral_3_eq_3)

text \<open>
  The curve through the landmarks \<open>(0, 0), (1/2, 1), (1, 0)\<close> stays below height
  \<open>1/2\<close>: at no parameter value at all does it reach the middle landmark.
\<close>

lemma bezier_point_misses_middle_landmark:
  "bezier_point [(0, 0), (1 / 2, 1), (1, 0)] t \<noteq> (1 / 2, 1)"
proof
  assume "bezier_point [(0, 0), (1 / 2, 1), (1, 0)] t = (1 / 2, 1)"
  then have "2 * t * (1 - t) = 1"
    by (simp add: bezier_point_three)
  then have "t\<^sup>2 + (1 - t)\<^sup>2 = 0"
    by (simp add: power2_eq_square algebra_simps)
  then show False
    by (auto simp: sum_power2_eq_zero_iff)
qed

text \<open>
  C7, as stated: with the landmarks used directly as control points, evaluating at the
  control-point parameter values \<open>i / n\<close> reproduces every landmark. It does not: for
  the three landmarks \<open>(0, 0), (1/2, 1), (1, 0)\<close> the parameter of the middle one is
  \<open>1 / 2\<close>, where the curve is at \<open>(1/2, 1/2)\<close> and the landmark is \<open>(1/2, 1)\<close>.
\<close>

theorem bezier_point_not_interpolating:
  "bezier_point [(0, 0), (1 / 2, 1), (1, 0)] (real 1 / real (length [(0, 0), (1 / 2, 1), (1, 0 :: real)] - 1))
     = (1 / 2, 1 / 2) \<and>
   [(0, 0), (1 / 2, 1), (1, 0)] ! 1 = (1 / 2, 1 :: real)"
  by (simp add: bezier_point_three power2_eq_square)

text \<open>
  C7, amended: with a non-empty landmark list used directly as the control points,
  evaluating the curve at the parameter values of the first and the last control
  point, \<open>t = 0\<close> and \<open>t = 1\<close>, reproduces the first and the last landmark exactly.
  (Nothing is promised for the landmarks in between.)
\<close>

theorem bezier_point_endpoints:
  "cps \<noteq> [] \<Longrightarrow> bezier_point cps 0 = cps ! 0 \<and> bezier_point cps 1 = cps ! (length cps - 1)"
  by (simp add: bezier_point_at_0 bezier_point_at_1)

theorem bezier_point_endpoints_witness:
  "[(0, 0), (1 / 2, 1), (1, 0)] \<noteq> ([] :: point list) \<and>
   bezier_point [(0, 0), (1 / 2, 1), (1, 0)] 0 = (0, 0) \<and>
   bezier_point [(0, 0), (1 / 2, 1), (1, 0)] 1 = (1, 0)"
  using bezier_point_endpoints [of "[(0, 0), (1 / 2, 1), (1, 0)]"] by simp

section \<open>EnhancedFaceVisualizer: dispatch on the equation type\<close>

subsection \<open>Equations and points\<close>

text \<open>
  \<open>generateFeaturePoints(feature, equation)\<close> switches on the string \<open>equation.type\<close>
  and reads, in each case, the fields that belong to that type. The fields are the
  \<open>payload\<close>: \<open>equation.segments\<close> (keyed by side, each \<open>{ coefficients, degree }\<close>);
  \<open>equation.center\<close> and \<open>equation.parameters = { a, b, theta }\<close>;
  \<open>equation.cupids_bow.segments\<close> (optional, each \<open>{ start, control, end }\<close>) and
  \<open>equation.curves\<close> (keyed by part, each \<open>{ control_points }\<close>);
  \<open>equation.parameters = { x, c }\<close>. A case that finds another payload reads a field
  of \<open>undefined\<close> and raises.
\<close>

record spline =
  spline_coefficients :: "real list list"
  spline_degree :: int

record bow_segment =
  seg_start :: point
  seg_control :: point
  seg_end :: point

datatype payload =
    Segments "string \<rightharpoonup> spline"
  | Eye point real real real
  | Lips "(string \<rightharpoonup> bow_segment) option" "string \<rightharpoonup> point list"
  | Hermite "real list" "real list"
  | NoPayload

record shape_equation =
  shape_type :: string
  payload :: payload

text \<open>The objects \<open>{ x, y, type: 'curve', feature }\<close> pushed to \<open>points\<close>.\<close>

record feature_point =
  fx :: real
  fy :: real
  ftype :: point_type
  feature_of :: string

definition curve_point :: "string \<Rightarrow> point \<Rightarrow> feature_point" where
  "curve_point feature p = \<lparr>fx = fst p, fy = snd p, ftype = curve, feature_of = feature\<rparr>"

text \<open>
  \<open>[...].forEach(side => { ... points.push(...) ... })\<close>: the callback runs for each
  key in turn and appends to \<open>points\<close>; a raise inside it ends the whole call.
\<close>

fun forEach_push ::
  "(string \<Rightarrow> js_error + feature_point list) \<Rightarrow> string list \<Rightarrow> feature_point list
     \<Rightarrow> js_error + feature_point list" where
  "forEach_push f [] points = Inr points"
| "forEach_push f (key # keys) points =
     (case f key of
        Inl e \<Rightarrow> Inl e
      | Inr pushed \<Rightarrow> forEach_push f keys (points @ pushed))"

subsection \<open>case 'piecewise_spline'\<close>

text \<open>
  \<^verbatim>\<open>
  ['left', 'right'].forEach(side => {
    const spline = equation.segments[side];
    const t = Array.from({ length: 50 }, (_, i) => i / 49);
    t.forEach(t => {
      const x = spline.coefficients[0].reduce((sum, c, i) =>
        sum + c * Math.pow(t, spline.degree - i), 0);
      const y = spline.coefficients[1].reduce((sum, c, i) =>
        sum + c * Math.pow(t, spline.degree - i), 0);
      points.push({ x, y, type: 'curve', feature });
    });
  });
  \<close>
  The exponent \<open>spline.degree - i\<close> is an integer. For a negative exponent
  \<open>Math.pow(t, -k)\<close> is \<open>1 / t ^ k\<close>; at \<open>t = 0\<close> JavaScript has \<open>Infinity\<close> there,
  a value the reals lack (\<open>1 / 0\<close> is \<open>0\<close> in HOL), so that \<open>js_pow\<close> is the source's
  value except at base 0 with a negative exponent. The accumulator \<open>sum\<close> of the
  \<open>reduce\<close> callback is \<open>acc\<close>.
\<close>

definition js_pow :: "real \<Rightarrow> int \<Rightarrow> real" where
  "js_pow t e = (if 0 \<le> e then t ^ nat e else 1 / t ^ nat (- e))"

fun reduce_powers :: "real list \<Rightarrow> int \<Rightarrow> real \<Rightarrow> nat \<Rightarrow> real \<Rightarrow> real" where
  "reduce_powers [] degree t i acc = acc"
| "reduce_powers (c # rest) degree t i acc =
     reduce_powers rest degree t (i + 1) (acc + c * js_pow t (degree - int i))"

definition spline_points :: "string \<Rightarrow> spline \<Rightarrow> js_error + feature_point list" where
  "spline_points feature spline =
     (case spline_coefficients spline of
        c0 # c1 # _ \<Rightarrow>
          Inr (map (\<lambda>t. curve_point feature
                          (reduce_powers c0 (spline_degree spline) t 0 0,
                           reduce_powers c1 (spline_degree spline) t 0 0))
                   (map (\<lambda>i. real i / 49) [0..<50]))
      | _ \<Rightarrow> Inl TypeError)"

definition piecewise_spline_points ::
  "string \<Rightarrow> (string \<rightharpoonup> spline) \<Rightarrow> js_error + feature_point list" where
  "piecewise_spline_points feature segments =
     forEach_push
       (\<lambda>side. case segments side of
                  None \<Rightarrow> Inl TypeError
                | Some spline \<Rightarrow> spline_points feature spline)
       [''left'', ''right''] []"

subsection \<open>case 'parametric_eye'\<close>

text \<open>
  \<^verbatim>\<open>
  const { center, parameters: { a, b, theta } } = equation;
  for (let t = 0; t <= 2 * Math.PI; t += 0.1) {
    const x = center[0] + a * Math.cos(t) * Math.cos(theta) -
             b * Math.sin(t) * Math.sin(theta);
    const y = center[1] + a * Math.cos(t) * Math.sin(theta) +
             b * Math.sin(t) * Math.cos(theta);
    points.push({ x, y, type: 'curve', feature });
  }
  \<close>
  \<open>parametric_eye_point\<close> is the pair \<open>(x, y)\<close> of the loop body.
\<close>

definition parametric_eye_point :: "point \<Rightarrow> real \<Rightarrow> real \<Rightarrow> real \<Rightarrow> real \<Rightarrow> point" where
  "parametric_eye_point center a b theta t =
     (let x = fst center + a * cos t * cos theta - b * sin t * sin theta;
          y = snd center + a * cos t * sin theta + b * sin t * cos theta
      in (x, y))"

lemma eye_measure:
  "t \<le> 2 * pi \<Longrightarrow>
   nat (\<lfloor>(2 * pi - (t + 1 / 10)) * 10\<rfloor> + 1) < nat (\<lfloor>(2 * pi - t) * 10\<rfloor> + 1)"
proof -
  assume "t \<le> 2 * pi"
  then have "0 \<le> \<lfloor>(2 * pi - t) * 10\<rfloor>"
    by simp
  moreover have "\<lfloor>(2 * pi - (t + 1 / 10)) * 10\<rfloor> = \<lfloor>(2 * pi - t) * 10\<rfloor> - 1"
  proof -
    have "(2 * pi - (t + 1 / 10)) * 10 = (2 * pi - t) * 10 - 1"
      by (simp add: algebra_simps)
    then show ?thesis
      by (simp only: floor_diff_one)
  qed
  ultimately show ?thesis
    by simp
qed

function eye_loop ::
  "string \<Rightarrow> point \<Rightarrow> real \<Rightarrow> real \<Rightarrow> real \<Rightarrow> real \<Rightarrow> feature_point list \<Rightarrow> feature_point list" where
  "eye_loop feature center a b theta t points =
     (if t \<le> 2 * pi
      then eye_loop feature center a b theta (t + 1 / 10)
             (points @ [curve_point feature (parametric_eye_point center a b theta t)])
      else points)"
  by pat_completeness auto
termination
proof (relation "measure (\<lambda>(feature, center, a, b, theta, t, points).
        nat (\<lfloor>(2 * pi - t) * 10\<rfloor> + 1))")
  show "wf (measure (\<lambda>(feature, center, a, b, theta, t, points).
        nat (\<lfloor>(2 * pi - t) * 10\<rfloor> + 1)))"
    by simp
next
  fix feature :: string and center :: point and a b theta t :: real
    and points :: "feature_point list"
  assume "t \<le> 2 * pi"
  then show "((feature, center, a, b, theta, t + 1 / 10,
        points @ [curve_point feature (parametric_eye_point center a b theta t)]),
       (feature, center, a, b, theta, t, points))
      \<in> measure (\<lambda>(feature, center, a, b, theta, t, points).
        nat (\<lfloor>(2 * pi - t) * 10\<rfloor> + 1))"
    using eye_measure [of t] by simp
qed

declare eye_loop.simps [simp del]


text \<open>The values that the loop variable \<open>t\<close> takes from \<open>t\<close> on.\<close>

function eye_parameters :: "real \<Rightarrow> real list" where
  "eye_parameters t = (if t \<le> 2 * pi then t # eye_parameters (t + 1 / 10) else [])"
  by pat_completeness auto
termination
proof (relation "measure (\<lambda>t. nat (\<lfloor>(2 * pi - t) * 10\<rfloor> + 1))")
  show "wf (measure (\<lambda>t. nat (\<lfloor>(2 * pi - t) * 10\<rfloor> + 1)))"
    by simp
next
  fix t :: real
  assume "t \<le> 2 * pi"
  then show "(t + 1 / 10, t) \<in> measure (\<lambda>t. nat (\<lfloor>(2 * pi - t) * 10\<rfloor> + 1))"
    using eye_measure [of t] by simp
qed

declare eye_parameters.simps [simp del]

subsection \<open>case 'composite_lips'\<close>

text \<open>
  \<^verbatim>\<open>
  if (equation.cupids_bow) {
    ['left', 'right'].forEach(side => {
      const segment = equation.cupids_bow.segments[side];
      const controlPoints = [segment.start, segment.control, segment.end];
      evaluateBezierCurve(controlPoints).forEach(point =>
        points.push({ ...point, type: 'curve', feature }));
    });
  }
  ['upper', 'lower'].forEach(part => {
    const curve = equation.curves[part];
    evaluateBezierCurve(curve.control_points).forEach(point =>
      points.push({ ...point, type: 'curve', feature }));
  });
  \<close>
\<close>

definition bow_points ::
  "string \<Rightarrow> (string \<rightharpoonup> bow_segment) \<Rightarrow> string \<Rightarrow> js_error + feature_point list" where
  "bow_points feature segments side =
     (case segments side of
        None \<Rightarrow> Inl TypeError
      | Some segment \<Rightarrow>
          (let controlPoints = [seg_start segment, seg_control segment, seg_end segment]
           in Inr (map (curve_point feature) (evaluateBezierCurve controlPoints))))"

definition lip_curve_points ::
  "string \<Rightarrow> (string \<rightharpoonup> point list) \<Rightarrow> string \<Rightarrow> js_error + feature_point list" where
  "lip_curve_points feature curves part =
     (case curves part of
        None \<Rightarrow> Inl TypeError
      | Some control_points \<Rightarrow>
          Inr (map (curve_point feature) (evaluateBezierCurve control_points)))"

definition composite_lips_points ::
  "string \<Rightarrow> (string \<rightharpoonup> bow_segment) option \<Rightarrow> (string \<rightharpoonup> point list)
     \<Rightarrow> js_error + feature_point list" where
  "composite_lips_points feature cupids_bow curves =
     (case (case cupids_bow of
              None \<Rightarrow> Inr []
            | Some segments \<Rightarrow> forEach_push (bow_points feature segments) [''left'', ''right''] [])
      of
        Inl e \<Rightarrow> Inl e
      | Inr points \<Rightarrow> forEach_push (lip_curve_points feature curves) [''upper'', ''lower''] points)"

subsection \<open>case 'hermite_spline'\<close>

text \<open>
  \<^verbatim>\<open>
  const { parameters } = equation;
  const y_vals = parameters.x;
  const coeffs = parameters.c;
  for (let i = 0; i < y_vals.length - 1; i++) {
    const y0 = y_vals[i];
    const y1 = y_vals[i + 1];
    for (let t = 0; t <= 1; t += 0.05) {
      const y = y0 + t * (y1 - y0);
      const x = coeffs.slice(0, 4).reduce((sum, c, j) =>
        sum + c * Math.pow(t, 3 - j), 0);
      points.push({ x, y, type: 'curve', feature });
    }
  }
  \<close>
  The inner loop below adds \<open>0.05\<close> in exact arithmetic and samples
  \<open>t = 0, 0.05, \<dots>, 1\<close>, 21 points for each segment. In IEEE doubles the sum arrives at
  \<open>1.0000000000000002\<close>, so that the code pushes 20 points for each segment and never
  evaluates \<open>t = 1\<close>. (The loop of the eyes, with step \<open>0.1\<close> up to \<open>2\<pi>\<close>, has 63
  samples in both readings.)
\<close>

function hermite_t_loop ::
  "string \<Rightarrow> real list \<Rightarrow> real \<Rightarrow> real \<Rightarrow> real \<Rightarrow> feature_point list \<Rightarrow> feature_point list" where
  "hermite_t_loop feature coeffs y0 y1 t points =
     (if t \<le> 1
      then (let y = y0 + t * (y1 - y0);
                x = reduce_powers (take 4 coeffs) 3 t 0 0
            in hermite_t_loop feature coeffs y0 y1 (t + 5 / 100)
                 (points @ [curve_point feature (x, y)]))
      else points)"
  by pat_completeness auto
termination
proof (relation "measure (\<lambda>(feature, coeffs, y0, y1, t, points). nat (\<lfloor>(1 - t) * 20\<rfloor> + 1))")
  show "wf (measure (\<lambda>(feature, coeffs, y0, y1, t, points). nat (\<lfloor>(1 - t) * 20\<rfloor> + 1)))"
    by simp
next
  fix feature :: string and coeffs :: "real list" and y0 y1 t x y :: real
    and points :: "feature_point list"
  assume "t \<le> 1"
  then have "0 \<le> \<lfloor>(1 - t) * 20\<rfloor>"
    by simp
  moreover have "\<lfloor>(1 - (t + 5 / 100)) * 20\<rfloor> = \<lfloor>(1 - t) * 20\<rfloor> - 1"
  proof -
    have "(1 - (t + 5 / 100)) * 20 = (1 - t) * 20 - 1"
      by (simp add: algebra_simps)
    then show ?thesis
      by (simp only: floor_diff_one)
  qed
  ultimately show "((feature, coeffs, y0, y1, t + 5 / 100, points @ [curve_point feature (x, y)]),
       (feature, coeffs, y0, y1, t, points))
      \<in> measure (\<lambda>(feature, coeffs, y0, y1, t, points). nat (\<lfloor>(1 - t) * 20\<rfloor> + 1))"
    by simp
qed

declare hermite_t_loop.simps [simp del]

function hermite_loop ::
  "string \<Rightarrow> real list \<Rightarrow> real list \<Rightarrow> nat \<Rightarrow> feature_point list \<Rightarrow> feature_point list" where
  "hermite_loop feature y_vals coeffs i points =
     (if int i < int (length y_vals) - 1
      then (let y0 = y_vals ! i;
                y1 = y_vals ! (i + 1)
            in hermite_loop feature y_vals coeffs (i + 1)
                 (hermite_t_loop feature coeffs y0 y1 0 points))
      else points)"
  by pat_completeness auto
termination
  by (relation "measure (\<lambda>(feature, y_vals, coeffs, i, points). length y_vals - i)") auto

declare hermite_loop.simps [simp del]

subsection \<open>The switch\<close>

text \<open>
  \<^verbatim>\<open>
  const generateFeaturePoints = useCallback((feature, equation) => {
    const points = [];
    switch (equation.type) {
      case 'piecewise_spline': ... break;
      case 'parametric_eye': ... break;
      case 'composite_lips': ... break;
      case 'hermite_spline': ... break;
      default:
        console.warn(`Unknown equation type: ${equation.type}`);
    }
    return points;
  }, [evaluateBezierCurve]);
  \<close>
  The result is the pair of the messages given to \<open>console.warn\<close> and the returned
  \<open>points\<close>; \<open>Inl\<close> is a raise.
\<close>

definition generateFeaturePoints ::
  "string \<Rightarrow> shape_equation \<Rightarrow> js_error + (string list \<times> feature_point list)" where
  "generateFeaturePoints feature equation =
     (if shape_type equation = ''piecewise_spline'' then
        (case payload equation of
           Segments segments \<Rightarrow>
             (case piecewise_spline_points feature segments of
                Inl e \<Rightarrow> Inl e
              | Inr points \<Rightarrow> Inr ([], points))
         | _ \<Rightarrow> Inl TypeError)
      else if shape_type equation = ''parametric_eye'' then
        (case payload equation of
           Eye center a b theta \<Rightarrow> Inr ([], eye_loop feature center a b theta 0 [])
         | _ \<Rightarrow> Inl TypeError)
      else if shape_type equation = ''composite_lips'' then
        (case payload equation of
           Lips cupids_bow curves \<Rightarrow>
             (case composite_lips_points feature cupids_bow curves of
                Inl e \<Rightarrow> Inl e
              | Inr points \<Rightarrow> Inr ([], points))
         | _ \<Rightarrow> Inl TypeError)
      else if shape_type equation = ''hermite_spline'' then
        (case payload equation of
           Hermite y_vals coeffs \<Rightarrow> Inr ([], hermite_loop feature y_vals coeffs 0 [])
         | _ \<Rightarrow> Inl TypeError)
      else Inr ([''Unknown equation type: '' @ shape_type equation], []))"

subsection \<open>The ellipse of the eyes\<close>

lemma eye_loop_map:
  "eye_loop feature center a b theta t points =
     points @ map (\<lambda>s. curve_point feature (parametric_eye_point center a b theta s))
                  (eye_parameters t)"
proof (induction feature center a b theta t points rule: eye_loop.induct)
  case (1 feature center a b theta t points)
  show ?case
  proof (cases "t \<le> 2 * pi")
    case True
    with "1.IH" show ?thesis
      by (subst eye_loop.simps, subst eye_parameters.simps) simp
  next
    case False
    then show ?thesis
      by (subst eye_loop.simps, subst eye_parameters.simps) simp
  qed
qed

lemma eye_parameters_range: "0 \<le> t \<Longrightarrow> s \<in> set (eye_parameters t) \<Longrightarrow> 0 \<le> s \<and> s \<le> 2 * pi"
proof (induction t rule: eye_parameters.induct)
  case (1 t)
  show ?case
  proof (cases "t \<le> 2 * pi")
    case True
    from "1.prems"(2) have "s = t \<or> s \<in> set (eye_parameters (t + 1 / 10))"
      using True by (subst (asm) eye_parameters.simps) simp
    then show ?thesis
    proof
      assume "s = t"
      with True "1.prems"(1) show ?thesis by simp
    next
      assume "s \<in> set (eye_parameters (t + 1 / 10))"
      moreover from "1.prems"(1) have "0 \<le> t + 1 / 10" by simp
      ultimately show ?thesis
        using "1.IH" [OF True] by simp
    qed
  next
    case False
    with "1.prems"(2) show ?thesis
      by (subst (asm) eye_parameters.simps) simp
  qed
qed

text \<open>
  C5. For center \<open>(cx, cy)\<close>, semi-axes \<open>a\<close>, \<open>b\<close> and rotation \<open>theta\<close>, the point at
  parameter \<open>t\<close> is exactly \<open>x = cx + a * cos t * cos theta - b * sin t * sin theta\<close>,
  \<open>y = cy + a * cos t * sin theta + b * sin t * cos theta\<close>; and the 'parametric_eye'
  case of \<open>generateFeaturePoints\<close> returns these points, one for each value of its loop
  variable \<open>t = 0, 0.1, 0.2, \<dots>\<close> up to \<open>2\<pi>\<close>, without any warning.
\<close>

theorem parametric_eye_formula:
  "parametric_eye_point (cx, cy) a b theta t =
     (cx + a * cos t * cos theta - b * sin t * sin theta,
      cy + a * cos t * sin theta + b * sin t * cos theta) \<and>
   generateFeaturePoints feature \<lparr>shape_type = ''parametric_eye'', payload = Eye (cx, cy) a b theta\<rparr> =
     Inr ([], map (\<lambda>t. \<lparr>fx = cx + a * cos t * cos theta - b * sin t * sin theta,
                         fy = cy + a * cos t * sin theta + b * sin t * cos theta,
                         ftype = curve, feature_of = feature\<rparr>)
                  (eye_parameters 0))"
  by (simp add: generateFeaturePoints_def eye_loop_map parametric_eye_point_def curve_point_def)

subsection \<open>Unknown equation types\<close>

lemma generateFeaturePoints_default:
  "shape_type equation \<noteq> ''piecewise_spline'' \<Longrightarrow> shape_type equation \<noteq> ''parametric_eye'' \<Longrightarrow>
   shape_type equation \<noteq> ''composite_lips'' \<Longrightarrow> shape_type equation \<noteq> ''hermite_spline'' \<Longrightarrow>
   generateFeaturePoints feature equation =
     Inr ([''Unknown equation type: '' @ shape_type equation], [])"
  by (simp add: generateFeaturePoints_def)

text \<open>
  C6, as stated: an input whose equation type tag is not one of the defined descriptor
  variants is rejected with \<open>UnknownEquationTypeError\<close>. The dispatcher has no such
  error: for the tag \<open>circle\<close>, which no descriptor variant and no case of the switch
  carries, it returns normally, with no points and one console warning.
\<close>

theorem generateFeaturePoints_unknown_not_rejected:
  "generateFeaturePoints ''nose_tip'' \<lparr>shape_type = ''circle'', payload = NoPayload\<rparr> =
     Inr ([''Unknown equation type: circle''], [])"
  by (simp add: generateFeaturePoints_def)

text \<open>
  C6, amended: for every input whose equation type tag is not one of the four tags of
  the switch (\<open>piecewise_spline\<close>, \<open>parametric_eye\<close>, \<open>composite_lips\<close>,
  \<open>hermite_spline\<close>), \<open>generateFeaturePoints\<close> raises nothing: it logs the warning
  \<open>Unknown equation type: <tag>\<close> and returns the empty list of points, whatever else
  the equation holds. It falls back on no other curve.
\<close>

theorem generateFeaturePoints_unknown_type:
  "shape_type equation \<notin> {''piecewise_spline'', ''parametric_eye'', ''composite_lips'', ''hermite_spline''}
   \<Longrightarrow> generateFeaturePoints feature equation =
         Inr ([''Unknown equation type: '' @ shape_type equation], [])"
  by (simp add: generateFeaturePoints_default)

theorem generateFeaturePoints_unknown_type_witness:
  "shape_type \<lparr>shape_type = ''polynomial'', payload = NoPayload\<rparr>
     \<notin> {''piecewise_spline'', ''parametric_eye'', ''composite_lips'', ''hermite_spline''} \<and>
   generateFeaturePoints ''left_eyebrow'' \<lparr>shape_type = ''polynomial'', payload = NoPayload\<rparr> =
     Inr ([''Unknown equation type: polynomial''], [])"
  using generateFeaturePoints_unknown_type
    [of "\<lparr>shape_type = ''polynomial'', payload = NoPayload\<rparr>" "''left_eyebrow''"]
  by simp

section \<open>Polynomial least-squares fits\<close>

text \<open>
  Modelled from the spec: the Vandermonde basis, the least-squares solver and the
  polynomial fitter, none of which is among the sources.
  \<^item> \<open>vandermonde(xs, degree)\<close>: row \<open>i\<close> is \<open>[x\<^sub>i ^ degree, x\<^sub>i ^ (degree - 1), \<dots>, 1]\<close>.
  \<^item> \<open>solve(design_matrix A, targets b, ridge_lambda = 0) -> coefficients\<close> "solves
    \<open>min ||A c - b||\<^sup>2 + ridge_lambda ||c||\<^sup>2\<close>": a coefficient vector is a result of the
    solver if it has one entry for each column and no other such vector has a smaller
    objective. The spec does not fix which minimiser is returned when there are
    several, so the solver is a relation between the problem and its results.
  \<^item> Ridge: "policy: enable ridge automatically whenever \<open>num_points < degree + 3\<close>";
    and a rank-deficient matrix ("fewer independent points than columns") makes the
    solver fail "unless \<open>ridge_lambda > 0\<close>", a failure that is "recovered locally by
    auto-enabling regularization". So ridge is enabled when there are fewer than
    \<open>degree + 3\<close> points or fewer distinct abscissae than columns. The spec leaves the
    value of \<open>ridge_lambda\<close> to the caller: it is the parameter \<open>lam\<close> of the fitter.
  \<^item> The polynomial fitter refuses fewer than 3 points (\<open>InsufficientPointsError\<close>),
    clamps the degree to \<open>min(requested_degree, num_points - 1)\<close>, "builds Vandermonde
    matrix at requested degree, solves for y-coefficients": a fit is a result of the
    solver for this matrix, the ordinates as targets and the \<open>ridge_lambda\<close> of the
    policy.
  \<^item> The total squared residual of a fit is measured with the evaluator, which the
    spec has "shared by fit-residual computation": the sum over the points of
    \<open>(evaluate(c, x\<^sub>i) - y\<^sub>i)\<^sup>2\<close>, the polynomial case of \<open>evaluate\<close> being \<open>horner\<close>.
\<close>

definition vandermonde_row :: "real \<Rightarrow> nat \<Rightarrow> real list" where
  "vandermonde_row x degree = map (\<lambda>j. x ^ (degree - j)) [0..<Suc degree]"

definition vandermonde :: "real list \<Rightarrow> nat \<Rightarrow> real list list" where
  "vandermonde xs degree = map (\<lambda>x. vandermonde_row x degree) xs"

definition dot :: "real list \<Rightarrow> real list \<Rightarrow> real" where
  "dot u v = sum_list (map2 (*) u v)"

definition squared_error :: "real list list \<Rightarrow> real list \<Rightarrow> real list \<Rightarrow> real" where
  "squared_error A b c = sum_list (map2 (\<lambda>row target. (dot row c - target)\<^sup>2) A b)"

definition objective :: "real list list \<Rightarrow> real list \<Rightarrow> real \<Rightarrow> real list \<Rightarrow> real" where
  "objective A b ridge_lambda c =
     squared_error A b c + ridge_lambda * sum_list (map (\<lambda>v. v\<^sup>2) c)"

definition solves :: "real list list \<Rightarrow> real list \<Rightarrow> real \<Rightarrow> nat \<Rightarrow> real list \<Rightarrow> bool" where
  "solves A b ridge_lambda columns c \<longleftrightarrow>
     length c = columns \<and>
     (\<forall>c'. length c' = columns \<longrightarrow> objective A b ridge_lambda c \<le> objective A b ridge_lambda c')"

definition ridge_enabled :: "point list \<Rightarrow> nat \<Rightarrow> bool" where
  "ridge_enabled points degree \<longleftrightarrow>
     length points < degree + 3 \<or> length (remdups (map fst points)) < Suc degree"

definition polynomial_fit :: "real \<Rightarrow> point list \<Rightarrow> nat \<Rightarrow> real list \<Rightarrow> bool" where
  "polynomial_fit lam points requested_degree c \<longleftrightarrow>
     3 \<le> length points \<and>
     (let degree = min requested_degree (length points - 1);
          ridge_lambda = (if ridge_enabled points degree then lam else 0)
      in solves (vandermonde (map fst points) degree) (map snd points) ridge_lambda
           (Suc degree) c)"

definition total_squared_residual :: "point list \<Rightarrow> real list \<Rightarrow> real" where
  "total_squared_residual points c = (\<Sum>(x, y) \<leftarrow> points. (horner c x - y)\<^sup>2)"

lemma dot_vandermonde_row:
  assumes "length c = Suc degree"
  shows "dot (vandermonde_row x degree) c = horner c x"
proof -
  have "map2 (*) (map (\<lambda>j. x ^ (degree - j)) [0..<Suc degree]) c =
      map (\<lambda>j. c ! j * x ^ (degree - j)) [0..<Suc degree]"
    using assms by (intro nth_equalityI) (simp_all del: upt_Suc add: mult.commute)
  then have "dot (vandermonde_row x degree) c = (\<Sum>j<Suc degree. c ! j * x ^ (degree - j))"
    by (simp del: upt_Suc add: dot_def vandermonde_row_def interv_sum_list_conv_sum_set_nat
        atLeast0LessThan)
  with assms show ?thesis
    by (simp add: horner_sum)
qed

lemma squared_error_vandermonde:
  assumes "length c = Suc degree"
  shows "squared_error (vandermonde (map fst points) degree) (map snd points) c =
     total_squared_residual points c"
proof -
  have "map2 (\<lambda>row target. (dot row c - target)\<^sup>2)
          (map (\<lambda>x. vandermonde_row x degree) (map fst points)) (map snd points) =
        map (\<lambda>(x, y). (horner c x - y)\<^sup>2) points"
    by (induction points) (simp_all add: dot_vandermonde_row [OF assms] split_beta)
  then show ?thesis
    by (simp add: squared_error_def vandermonde_def total_squared_residual_def)
qed

lemma polynomial_fit_iff:
  assumes "3 \<le> length points" and "degree < length points"
  shows "polynomial_fit lam points degree c \<longleftrightarrow>
     length c = Suc degree \<and>
     (\<forall>c'. length c' = Suc degree \<longrightarrow>
        total_squared_residual points c +
          (if ridge_enabled points degree then lam else 0) * sum_list (map (\<lambda>v. v\<^sup>2) c)
        \<le> total_squared_residual points c' +
          (if ridge_enabled points degree then lam else 0) * sum_list (map (\<lambda>v. v\<^sup>2) c'))"
proof -
  from assms(2) have "min degree (length points - 1) = degree"
    by simp
  with assms(1) show ?thesis
    unfolding polynomial_fit_def Let_def solves_def objective_def
    by (auto simp: squared_error_vandermonde)
qed

lemma polynomial_fit_unregularised:
  assumes "3 \<le> length points" and "degree < length points"
    and "\<not> ridge_enabled points degree"
  shows "polynomial_fit lam points degree c \<longleftrightarrow>
     length c = Suc degree \<and>
     (\<forall>c'. length c' = Suc degree \<longrightarrow>
        total_squared_residual points c \<le> total_squared_residual points c')"
  using assms(3) by (simp add: polynomial_fit_iff [OF assms(1,2)])

lemma horner_leading_zeros: "horner (replicate k 0 @ c) x = horner c x"
  by (induction k) (simp_all add: horner_def)

lemma total_squared_residual_leading_zeros:
  "total_squared_residual points (replicate k 0 @ c) = total_squared_residual points c"
  by (simp add: total_squared_residual_def horner_leading_zeros)

lemma total_squared_residual_nonneg: "0 \<le> total_squared_residual points c"
  unfolding total_squared_residual_def
  by (rule sum_list_nonneg) (auto simp: split_beta)

lemma ridge_enabled_mono: "d1 \<le> d2 \<Longrightarrow> ridge_enabled points d1 \<Longrightarrow> ridge_enabled points d2"
  by (auto simp: ridge_enabled_def)

lemma residual_monotone_aux:
  assumes "d1 \<le> d2" and "d2 < length points"
    and "\<not> ridge_enabled points d2"
    and "polynomial_fit lam points d1 c1"
    and "polynomial_fit lam points d2 c2"
  shows "total_squared_residual points c2 \<le> total_squared_residual points c1"
proof -
  from assms(4) have n: "3 \<le> length points"
    by (simp add: polynomial_fit_def)
  from assms(1,3) have no_ridge: "\<not> ridge_enabled points d1"
    using ridge_enabled_mono by blast
  from assms(1,2) have d1: "d1 < length points"
    by simp
  let ?padded = "replicate (d2 - d1) 0 @ c1"
  from assms(4) have "length c1 = Suc d1"
    by (simp add: polynomial_fit_unregularised [OF n d1 no_ridge])
  with assms(1) have "length ?padded = Suc d2"
    by simp
  with assms(5) have "total_squared_residual points c2 \<le> total_squared_residual points ?padded"
    by (simp add: polynomial_fit_unregularised [OF n assms(2,3)])
  then show ?thesis
    by (simp only: total_squared_residual_leading_zeros)
qed

subsection \<open>Four points on a line: the ridge fit has the larger residual\<close>

text \<open>
  The points \<open>(0, 1), (1, 2), (2, 3), (3, 4)\<close> lie on the line \<open>y = x + 1\<close>. For degree
  1 there are \<open>4 \<ge> 1 + 3\<close> points and ridge is off; for degree 2 there are
  \<open>4 < 2 + 3\<close> points and ridge is on.
\<close>

lemma line_points_ridge:
  "\<not> ridge_enabled [(0, 1), (1, 2), (2, 3), (3, 4)] 1"
  "ridge_enabled [(0, 1), (1, 2), (2, 3), (3, 4)] 2"
  by (simp_all add: ridge_enabled_def)

lemma line_fit_degree_1: "polynomial_fit lam [(0, 1), (1, 2), (2, 3), (3, 4)] 1 [1, 1]"
proof -
  have "total_squared_residual [(0, 1), (1, 2), (2, 3), (3, 4)] [1, 1] = 0"
    by (simp add: total_squared_residual_def horner_def)
  moreover have "polynomial_fit lam [(0, 1), (1, 2), (2, 3), (3, 4)] 1 [1, 1] \<longleftrightarrow>
      length [1, 1 :: real] = Suc 1 \<and>
      (\<forall>c'. length c' = Suc 1 \<longrightarrow>
        total_squared_residual [(0, 1), (1, 2), (2, 3), (3, 4)] [1, 1]
          \<le> total_squared_residual [(0, 1), (1, 2), (2, 3), (3, 4)] c')"
    by (rule polynomial_fit_unregularised) (simp_all add: ridge_enabled_def)
  ultimately show ?thesis
    by (simp add: total_squared_residual_nonneg)
qed

lemma line_residual:
  "total_squared_residual [(0, 1), (1, 2), (2, 3), (3, 4)] [p, q, r] =
     (r - 1)\<^sup>2 + (p + q + r - 2)\<^sup>2 + (4 * p + 2 * q + r - 3)\<^sup>2 + (9 * p + 3 * q + r - 4)\<^sup>2"
  by (simp add: total_squared_residual_def horner_def algebra_simps)

lemma line_fit_degree_2:
  "polynomial_fit 1 [(0, 1), (1, 2), (2, 3), (3, 4)] 2 [30 / 163, 280 / 489, 130 / 163]"
proof -
  have "total_squared_residual [(0, 1), (1, 2), (2, 3), (3, 4)] [30 / 163, 280 / 489, 130 / 163]
        + 1 * sum_list (map (\<lambda>v. v\<^sup>2) [30 / 163, 280 / 489, 130 / 163])
      \<le> total_squared_residual [(0, 1), (1, 2), (2, 3), (3, 4)] c'
        + 1 * sum_list (map (\<lambda>v. v\<^sup>2) c')"
    if "length c' = Suc 2" for c' :: "real list"
  proof -
    from that obtain p q r where c': "c' = [p, q, r]"
      by (auto simp: length_Suc_conv numeral_2_eq_2)
    define u where "u = p - 30 / 163"
    define v where "v = q - 280 / 489"
    define w where "w = r - 130 / 163"
    have p: "p = u + 30 / 163" and q: "q = v + 280 / 489" and r: "r = w + 130 / 163"
      by (simp_all add: u_def v_def w_def)
    have "0 \<le> w\<^sup>2 + (u + v + w)\<^sup>2 + (4 * u + 2 * v + w)\<^sup>2 + (9 * u + 3 * v + w)\<^sup>2
        + (u\<^sup>2 + v\<^sup>2 + w\<^sup>2)"
      by simp
    also have "\<dots> = ((r - 1)\<^sup>2 + (p + q + r - 2)\<^sup>2 + (4 * p + 2 * q + r - 3)\<^sup>2 +
          (9 * p + 3 * q + r - 4)\<^sup>2 + (p\<^sup>2 + q\<^sup>2 + r\<^sup>2)) - 670 / 489"
      unfolding p q r by (simp add: power2_eq_square algebra_simps)
    finally have "670 / 489 \<le> (r - 1)\<^sup>2 + (p + q + r - 2)\<^sup>2 + (4 * p + 2 * q + r - 3)\<^sup>2 +
          (9 * p + 3 * q + r - 4)\<^sup>2 + (p\<^sup>2 + q\<^sup>2 + r\<^sup>2)"
      by simp
    moreover have "total_squared_residual [(0, 1), (1, 2), (2, 3), (3, 4)]
          [30 / 163, 280 / 489, 130 / 163]
        + 1 * sum_list (map (\<lambda>v. v\<^sup>2) [30 / 163, 280 / 489, 130 / 163]) = 670 / 489"
      by (simp add: line_residual power2_eq_square)
    ultimately show ?thesis
      by (simp add: c' line_residual)
  qed
  then show ?thesis
    by (simp add: polynomial_fit_iff line_points_ridge)
qed

text \<open>
  Whatever positive value \<open>ridge_lambda\<close> has, a fit of degree 2 to these points has a
  positive residual.
\<close>

lemma ridge_result_positive_residual:
  assumes lam: "0 < lam"
    and fit: "polynomial_fit lam [(0, 1), (1, 2), (2, 3), (3, 4)] 2 c"
  shows "0 < total_squared_residual [(0, 1), (1, 2), (2, 3), (3, 4)] c"
proof (rule ccontr)
  let ?pts = "[(0, 1), (1, 2), (2, 3), (3, 4)] :: point list"
  let ?J = "\<lambda>c. total_squared_residual ?pts c + lam * sum_list (map (\<lambda>v. v\<^sup>2) c)"
  assume "\<not> 0 < total_squared_residual ?pts c"
  with total_squared_residual_nonneg [of ?pts c]
  have zero: "total_squared_residual ?pts c = 0"
    by simp
  from fit have len: "length c = 3"
    and least: "\<And>c'. length c' = 3 \<Longrightarrow> ?J c \<le> ?J c'"
    by (simp_all add: polynomial_fit_iff line_points_ridge)
  from len obtain p q r where c: "c = [p, q, r]"
    by (auto simp: length_Suc_conv numeral_3_eq_3)
  from zero have "(r - 1)\<^sup>2 + ((p + q + r - 2)\<^sup>2 + ((4 * p + 2 * q + r - 3)\<^sup>2 +
      (9 * p + 3 * q + r - 4)\<^sup>2)) = 0"
    by (simp add: c line_residual)
  then have "r - 1 = 0 \<and> p + q + r - 2 = 0 \<and> 4 * p + 2 * q + r - 3 = 0"
    by (simp add: add_nonneg_eq_0_iff)
  then have pqr: "p = 0" "q = 1" "r = 1"
    by simp_all
  define e where "e = lam / (15 + lam)"
  have e: "0 < e" "e * (15 + lam) = lam"
    using lam by (simp_all add: e_def)
  let ?c' = "[0, 1 - e, 1 - e]"
  have "?J c = 2 * lam"
    using zero by (simp add: c pqr)
  moreover have "?J ?c' = 30 * e\<^sup>2 + 2 * lam * (1 - e)\<^sup>2"
    by (simp add: line_residual power2_eq_square algebra_simps)
  moreover have "30 * e\<^sup>2 + 2 * lam * (1 - e)\<^sup>2 < 2 * lam"
  proof -
    have "30 * e\<^sup>2 + 2 * lam * (1 - e)\<^sup>2 = 2 * lam + 2 * e * (e * (15 + lam)) - 4 * lam * e"
      by (simp add: power2_eq_square algebra_simps)
    also have "\<dots> = 2 * lam - 2 * lam * e"
      by (simp add: e(2))
    also have "\<dots> < 2 * lam"
      using lam e(1) by simp
    finally show ?thesis .
  qed
  ultimately have "?J ?c' < ?J c"
    by simp
  with least [of ?c'] show False
    by simp
qed

text \<open>
  C8, as stated: for fits of the degrees \<open>d1 < d2\<close>, both less than the number of
  points, the residual of degree \<open>d2\<close> is at most that of degree \<open>d1\<close>. The fitter's
  ridge policy breaks this: for the four points on the line \<open>y = x + 1\<close> and
  \<open>ridge_lambda = 1\<close>, the fit of degree 1 is the line itself, with residual 0, and the
  fit of degree 2 is the ridge solution \<open>[30/163, 280/489, 130/163]\<close>, with the residual
  \<open>89030/239121\<close>.
\<close>

theorem ridge_fit_residual_increases:
  "(1 :: nat) < 2 \<and> 2 < length [(0, 1), (1, 2), (2, 3), (3, 4 :: real)] \<and>
   polynomial_fit 1 [(0, 1), (1, 2), (2, 3), (3, 4)] 1 [1, 1] \<and>
   polynomial_fit 1 [(0, 1), (1, 2), (2, 3), (3, 4)] 2 [30 / 163, 280 / 489, 130 / 163] \<and>
   total_squared_residual [(0, 1), (1, 2), (2, 3), (3, 4)] [1, 1] = 0 \<and>
   total_squared_residual [(0, 1), (1, 2), (2, 3), (3, 4)] [30 / 163, 280 / 489, 130 / 163]
     = 89030 / 239121 \<and>
   total_squared_residual [(0, 1), (1, 2), (2, 3), (3, 4)] [1, 1] <
     total_squared_residual [(0, 1), (1, 2), (2, 3), (3, 4)] [30 / 163, 280 / 489, 130 / 163]"
proof -
  have "total_squared_residual [(0, 1), (1, 2), (2, 3), (3, 4)] [1, 1] = 0"
    by (simp add: total_squared_residual_def horner_def)
  moreover have "total_squared_residual [(0, 1), (1, 2), (2, 3), (3, 4)]
      [30 / 163, 280 / 489, 130 / 163] = 89030 / 239121"
    by (simp add: line_residual power2_eq_square)
  ultimately show ?thesis
    using line_fit_degree_1 [of 1] line_fit_degree_2 by simp
qed

subsection \<open>Without ridge the residual does not increase\<close>

text \<open>
  C8, amended: for a fixed point set and fits of the degrees \<open>d1 < d2\<close>, both less than
  the number of points, such that ridge is not enabled for degree \<open>d2\<close> (there are at
  least \<open>d2 + 3\<close> points and at least \<open>d2 + 1\<close> distinct abscissae, so that it is not
  enabled for \<open>d1\<close> either and both fits are plain least-squares fits), the total
  squared residual of the fit of degree \<open>d2\<close> is at most that of the fit of degree \<open>d1\<close>.
\<close>

theorem residual_monotone_without_ridge:
  "d1 < d2 \<Longrightarrow> d2 < length points \<Longrightarrow> \<not> ridge_enabled points d2 \<Longrightarrow>
   polynomial_fit lam points d1 c1 \<Longrightarrow> polynomial_fit lam points d2 c2 \<Longrightarrow>
   total_squared_residual points c2 \<le> total_squared_residual points c1"
  using residual_monotone_aux [of d1 d2 points lam c1 c2] by simp

text \<open>
  Five points on the parabola \<open>y = x\<^sup>2\<close>: the least-squares line is \<open>y = 2\<close> with
  residual 14, the fit of degree 2 is the parabola.
\<close>

lemma parabola_points_ridge:
  "\<not> ridge_enabled [(- 2, 4), (- 1, 1), (0, 0), (1, 1), (2, 4)] 1"
  "\<not> ridge_enabled [(- 2, 4), (- 1, 1), (0, 0), (1, 1), (2, 4)] 2"
  by (simp_all add: ridge_enabled_def)

lemma parabola_fit_degree_1:
  "polynomial_fit lam [(- 2, 4), (- 1, 1), (0, 0), (1, 1), (2, 4)] 1 [0, 2]"
proof -
  have "total_squared_residual [(- 2, 4), (- 1, 1), (0, 0), (1, 1), (2, 4)] [0, 2] \<le>
      total_squared_residual [(- 2, 4), (- 1, 1), (0, 0), (1, 1), (2, 4)] c'"
    if "length c' = Suc 1" for c'
  proof -
    from that obtain m k where c': "c' = [m, k]"
      by (auto simp: length_Suc_conv)
    have "0 \<le> 10 * m\<^sup>2 + 5 * (k - 2)\<^sup>2"
      by simp
    also have "\<dots> = (k - 2 * m - 4)\<^sup>2 + (k - m - 1)\<^sup>2 + k\<^sup>2 + (m + k - 1)\<^sup>2 +
        (2 * m + k - 4)\<^sup>2 - 14"
      by (simp add: power2_eq_square algebra_simps)
    finally show ?thesis
      by (simp add: total_squared_residual_def horner_def c' power2_eq_square algebra_simps)
  qed
  moreover have "polynomial_fit lam [(- 2, 4), (- 1, 1), (0, 0), (1, 1), (2, 4)] 1 [0, 2] \<longleftrightarrow>
      length [0, 2 :: real] = Suc 1 \<and>
      (\<forall>c'. length c' = Suc 1 \<longrightarrow>
        total_squared_residual [(- 2, 4), (- 1, 1), (0, 0), (1, 1), (2, 4)] [0, 2]
          \<le> total_squared_residual [(- 2, 4), (- 1, 1), (0, 0), (1, 1), (2, 4)] c')"
    by (rule polynomial_fit_unregularised) (simp_all add: ridge_enabled_def)
  ultimately show ?thesis
    by simp
qed

lemma parabola_fit_degree_2:
  "polynomial_fit lam [(- 2, 4), (- 1, 1), (0, 0), (1, 1), (2, 4)] 2 [1, 0, 0]"
proof -
  have "total_squared_residual [(- 2, 4), (- 1, 1), (0, 0), (1, 1), (2, 4)] [1, 0, 0] = 0"
    by (simp add: total_squared_residual_def horner_def)
  then show ?thesis
    by (simp add: polynomial_fit_unregularised parabola_points_ridge
        total_squared_residual_nonneg)
qed

theorem residual_monotone_without_ridge_witness:
  "(1 :: nat) < 2 \<and> 2 < length [(- 2, 4), (- 1, 1), (0, 0), (1, 1), (2, 4 :: real)] \<and>
   \<not> ridge_enabled [(- 2, 4), (- 1, 1), (0, 0), (1, 1), (2, 4)] 2 \<and>
   polynomial_fit 1 [(- 2, 4), (- 1, 1), (0, 0), (1, 1), (2, 4)] 1 [0, 2] \<and>
   polynomial_fit 1 [(- 2, 4), (- 1, 1), (0, 0), (1, 1), (2, 4)] 2 [1, 0, 0] \<and>
   total_squared_residual [(- 2, 4), (- 1, 1), (0, 0), (1, 1), (2, 4)] [1, 0, 0] \<le>
     total_squared_residual [(- 2, 4), (- 1, 1), (0, 0), (1, 1), (2, 4)] [0, 2]"
proof -
  have lt: "(1 :: nat) < 2"
    and len: "2 < length [(- 2, 4), (- 1, 1), (0, 0), (1, 1), (2, 4 :: real)]"
    by simp_all
  note fit1 = parabola_fit_degree_1 [of 1] and fit2 = parabola_fit_degree_2 [of 1]
  from residual_monotone_without_ridge [OF lt len parabola_points_ridge(2) fit1 fit2]
    lt len parabola_points_ridge(2) fit1 fit2
  show ?thesis
    by (intro conjI)
qed

section \<open>Fit requests: the degree\<close>

text \<open>
  Modelled from the spec: the validation of the degree of a fit request and the degree
  clamp of the polynomial fitter. Both belong to the fitting core, which is not among
  the sources (the front end only declares \<open>min="1" max="10"\<close> on the number input and
  sends what was entered). The spec: "\<open>degree \<in> [1,10]\<close> (validated range; values
  outside are clamped, not rejected, per existing UI slider bounds)" and, for the
  polynomial fitter, "Degree is clamped to \<open>min(requested_degree, num_points - 1)\<close>".
  Both functions are total: there is no error result for a degree.
\<close>

definition clamp_degree :: "int \<Rightarrow> int" where
  "clamp_degree degree = (if degree < 1 then 1 else if 10 < degree then 10 else degree)"

definition effective_degree :: "int \<Rightarrow> nat \<Rightarrow> int" where
  "effective_degree requested_degree num_points =
     min (clamp_degree requested_degree) (int num_points - 1)"

text \<open>
  C9. Every requested degree is mapped into \<open>[1, 10]\<close>: a value in the range is kept, a
  value below becomes 1, a value above becomes 10. The effective fitting degree is the
  minimum of that degree and \<open>num_points - 1\<close>; it never exceeds either.
\<close>

theorem degree_clamped:
  "1 \<le> clamp_degree d \<and> clamp_degree d \<le> 10 \<and>
   clamp_degree d = max 1 (min 10 d) \<and>
   (1 \<le> d \<and> d \<le> 10 \<longrightarrow> clamp_degree d = d) \<and>
   effective_degree d n = min (max 1 (min 10 d)) (int n - 1) \<and>
   effective_degree d n \<le> int n - 1 \<and> effective_degree d n \<le> 10"
  by (auto simp: clamp_degree_def effective_degree_def)

theorem degree_clamped_witness:
  "clamp_degree 50 = 10 \<and> clamp_degree (- 3) = 1 \<and> clamp_degree 4 = 4 \<and>
   effective_degree 50 5 = 4 \<and> effective_degree 2 5 = 2"
  using degree_clamped [of 50 5] degree_clamped [of "- 3" 5] degree_clamped [of 4 5]
    degree_clamped [of 2 5]
  by simp

end
